theory Spec2Isabelle
  imports Complex_Main "HOL-Library.Char_ord" "HOL-Library.List_Lexorder"
    "HOL-Library.Product_Lexorder" "HOL-Library.Option_ord"
begin

section \<open>The court-rules store: primary table, search index and triggers\<close>

text \<open>
  The table \<^verbatim>\<open>court_rules\<close> of \<^verbatim>\<open>addCourtRulesTables\<close>: an \<^verbatim>\<open>INTEGER PRIMARY KEY
  AUTOINCREMENT\<close> id, the columns, and \<^verbatim>\<open>UNIQUE(rule_set, rule_number)\<close>. Nullable columns
  are options; the two timestamps are readings of the clock.
\<close>

record court_rule =
  cr_id :: nat
  cr_rule_set :: string
  cr_rule_number :: string
  cr_rule_name :: "string option"
  cr_full_text :: string
  cr_effective_date :: "string option"
  cr_created_at :: nat
  cr_updated_at :: nat

text \<open>
  A row of the FTS5 table \<^verbatim>\<open>court_rules_fts\<close>: what the index holds for one rowid, namely
  the four indexed columns the trigger handed to it.
\<close>

record court_rule_fts =
  fts_rowid :: nat
  fts_rule_set :: string
  fts_rule_number :: string
  fts_rule_name :: "string option"
  fts_full_text :: string

text \<open>
  The database file: both tables and the \<^verbatim>\<open>sqlite_sequence\<close> entry of the AUTOINCREMENT
  column, the largest rowid ever handed out. The tables \<^verbatim>\<open>rcw\<close> and \<^verbatim>\<open>wac\<close> have the same
  shape: an AUTOINCREMENT id, a UNIQUE citation and an FTS5 table fed by the same three
  triggers; the RCW scrapers write with \<^verbatim>\<open>INSERT OR REPLACE\<close> too.
\<close>

record court_store =
  court_rules :: "court_rule list"
  court_rules_fts :: "court_rule_fts list"
  court_rules_seq :: nat

text \<open>The file after \<^verbatim>\<open>addCourtRulesTables\<close>, before any scraper has run.\<close>

definition new_Database :: court_store where
  "new_Database = \<lparr>court_rules = [], court_rules_fts = [], court_rules_seq = 0\<rparr>"

text \<open>The column list of the triggers: \<^verbatim>\<open>(new.id, new.rule_set, new.rule_number,
  new.rule_name, new.full_text)\<close>.\<close>

definition fts_of :: "court_rule \<Rightarrow> court_rule_fts" where
  "fts_of r =
     \<lparr>fts_rowid = cr_id r, fts_rule_set = cr_rule_set r,
      fts_rule_number = cr_rule_number r, fts_rule_name = cr_rule_name r,
      fts_full_text = cr_full_text r\<rparr>"

text \<open>\<^verbatim>\<open>court_rules_ai\<close>: after an insert, add the index row of the new primary row.\<close>

definition court_rules_ai :: "court_rule \<Rightarrow> court_store \<Rightarrow> court_store" where
  "court_rules_ai new db = db\<lparr>court_rules_fts := court_rules_fts db @ [fts_of new]\<rparr>"

text \<open>
  The other two triggers, \<^verbatim>\<open>court_rules_ad\<close> and \<^verbatim>\<open>court_rules_au\<close>, run after a DELETE and
  after an UPDATE of a row. No statement of the repository deletes or updates a row of a
  primary table. Rows do leave the table, through the REPLACE conflict resolution of the
  insert statement below; SQLite fires delete triggers for those rows if and only if
  recursive triggers are enabled, they are off unless \<^verbatim>\<open>PRAGMA recursive_triggers\<close> turns
  them on, and no connection of the repository issues that pragma. So REPLACE removes a
  conflicting row from the primary table and runs no trigger for it.
\<close>

definition replace_delete :: "court_rule \<Rightarrow> court_store \<Rightarrow> court_store" where
  "replace_delete old db =
     db\<lparr>court_rules := filter (\<lambda>r. cr_id r \<noteq> cr_id old) (court_rules db)\<rparr>"

text \<open>
  \<^verbatim>\<open>insertStmt.run(ruleSet, ruleNumber, ruleName, fullText)\<close> of the court-rule scrapers:
  \<^verbatim>\<open>INSERT OR REPLACE INTO court_rules (rule_set, rule_number, rule_name, full_text,
  updated_at) VALUES (?, ?, ?, ?, CURRENT_TIMESTAMP)\<close>, one statement and so one atomic
  change. The new rowid is one more than the largest ever used; the rows that hold the same
  \<^verbatim>\<open>(rule_set, rule_number)\<close> are deleted; the row is inserted with \<^verbatim>\<open>effective_date\<close> NULL
  and \<^verbatim>\<open>created_at\<close> at its default; then \<^verbatim>\<open>court_rules_ai\<close> runs.
\<close>

definition insertStmt_run ::
  "nat \<Rightarrow> string \<Rightarrow> string \<Rightarrow> string \<Rightarrow> string \<Rightarrow> court_store \<Rightarrow> court_store" where
  "insertStmt_run now ruleSet ruleNumber ruleName fullText db =
     (let newid = Suc (fold max (map cr_id (court_rules db)) (court_rules_seq db));
          conflicts = filter (\<lambda>r. cr_rule_set r = ruleSet \<and> cr_rule_number r = ruleNumber)
                        (court_rules db);
          db1 = fold replace_delete conflicts db;
          new = \<lparr>cr_id = newid, cr_rule_set = ruleSet, cr_rule_number = ruleNumber,
                 cr_rule_name = Some ruleName, cr_full_text = fullText,
                 cr_effective_date = None, cr_created_at = now, cr_updated_at = now\<rparr>;
          db2 = db1\<lparr>court_rules := court_rules db1 @ [new], court_rules_seq := newid\<rparr>
      in court_rules_ai new db2)"

text \<open>The rows of each table that carry a given natural key.\<close>

definition primary_rows_for :: "string \<Rightarrow> string \<Rightarrow> court_store \<Rightarrow> court_rule list" where
  "primary_rows_for ruleSet ruleNumber db =
     filter (\<lambda>r. cr_rule_set r = ruleSet \<and> cr_rule_number r = ruleNumber) (court_rules db)"

definition index_rows_for :: "string \<Rightarrow> string \<Rightarrow> court_store \<Rightarrow> court_rule_fts list" where
  "index_rows_for ruleSet ruleNumber db =
     filter (\<lambda>f. fts_rule_set f = ruleSet \<and> fts_rule_number f = ruleNumber)
       (court_rules_fts db)"

text \<open>
  The invariant of the search index: each primary row has exactly one index row under its
  id, built from its fields, and each index row's rowid is the id of a primary row.
\<close>

definition fts_in_sync :: "court_store \<Rightarrow> bool" where
  "fts_in_sync db =
     (list_all (\<lambda>r. filter (\<lambda>f. fts_rowid f = cr_id r) (court_rules_fts db) = [fts_of r])
        (court_rules db)
      \<and> list_all (\<lambda>f. fts_rowid f \<in> set (map cr_id (court_rules db))) (court_rules_fts db))"

section \<open>Exact lookup of a court rule\<close>

text \<open>The object a row is selected into by \<^verbatim>\<open>getCourtRule\<close>.\<close>

record court_rule_result =
  res_ruleSet :: string
  res_ruleNumber :: string
  res_ruleName :: "string option"
  res_fullText :: string
  res_updatedAt :: nat

definition select_rule :: "court_rule \<Rightarrow> court_rule_result" where
  "select_rule r =
     \<lparr>res_ruleSet = cr_rule_set r, res_ruleNumber = cr_rule_number r,
      res_ruleName = cr_rule_name r, res_fullText = cr_full_text r,
      res_updatedAt = cr_updated_at r\<rparr>"

text \<open>\<^verbatim>\<open>stmt.get(ruleSet, ruleNumber)\<close>: the first row of
  \<^verbatim>\<open>WHERE rule_set = ? AND rule_number = ?\<close>, or \<^verbatim>\<open>undefined\<close>.\<close>

definition stmt_get :: "court_store \<Rightarrow> string \<Rightarrow> string \<Rightarrow> court_rule_result option" where
  "stmt_get db ruleSet ruleNumber =
     map_option select_rule
       (find (\<lambda>r. cr_rule_set r = ruleSet \<and> cr_rule_number r = ruleNumber) (court_rules db))"

text \<open>
  \<^verbatim>\<open>getCourtRule\<close>, returning beside its result the keys it ran the statement with, in
  order. \<^verbatim>\<open>result || null\<close> is the option.
\<close>

definition getCourtRule_run ::
  "court_store \<Rightarrow> string \<Rightarrow> string \<Rightarrow> court_rule_result option \<times> (string \<times> string) list" where
  "getCourtRule_run db ruleSet ruleNumber =
     (let result = stmt_get db ruleSet ruleNumber
      in if result = None \<and> CHR ''.'' \<notin> set ruleNumber
         then (stmt_get db ruleSet (ruleNumber @ ''.0''),
               [(ruleSet, ruleNumber), (ruleSet, ruleNumber @ ''.0'')])
         else (result, [(ruleSet, ruleNumber)]))"

definition getCourtRule :: "court_store \<Rightarrow> string \<Rightarrow> string \<Rightarrow> court_rule_result option" where
  "getCourtRule db ruleSet ruleNumber = fst (getCourtRule_run db ruleSet ruleNumber)"

section \<open>Merged ranked search\<close>

text \<open>What a statement of the database library throws: an \<^verbatim>\<open>Error\<close> object with a
  message.\<close>

datatype js_error = Error string

definition message :: "js_error \<Rightarrow> string" where
  "message e = (case e of Error m \<Rightarrow> m)"

text \<open>
  One row of a family's search statement before its \<^verbatim>\<open>LIMIT\<close>: an index row that matches
  the query, joined with its primary row, with the engine's \<^verbatim>\<open>rank\<close>. Which rows match and
  what rank they get is the FTS5 engine's work, and so is the rejection of a query string
  that is not in its syntax; the outcome for each family is an input here.
\<close>

record match_row =
  mr_citation :: string
  mr_titleName :: "string option"
  mr_chapterName :: "string option"
  mr_sectionName :: "string option"
  mr_snippet :: string
  mr_rank :: real

datatype match_outcome = Rejected js_error | Matched "match_row list"

datatype result_type = RCW | WAC | Court_Rule

record SearchResult =
  sr_type :: result_type
  sr_citation :: string
  sr_titleName :: "string option"
  sr_chapterName :: "string option"
  sr_sectionName :: "string option"
  sr_snippet :: string
  sr_score :: real

text \<open>SQLite's \<^verbatim>\<open>LIMIT n\<close>: a negative \<open>n\<close> is no limit.\<close>

definition sql_limit :: "int \<Rightarrow> 'a list \<Rightarrow> 'a list" where
  "sql_limit n xs = (if n < 0 then xs else take (nat n) xs)"

text \<open>
  \<^verbatim>\<open>stmt.all(query, n)\<close> of \<^verbatim>\<open>... WHERE fts MATCH ? ORDER BY rank LIMIT ?\<close>. With a limit of
  0 the statement ends before the \<^verbatim>\<open>MATCH\<close> is evaluated and returns no row; otherwise a
  rejected query throws.
\<close>

definition stmt_all :: "match_outcome \<Rightarrow> int \<Rightarrow> js_error + match_row list" where
  "stmt_all outcome n =
     (if n = 0 then Inr []
      else case outcome of
             Rejected e \<Rightarrow> Inl e
           | Matched ms \<Rightarrow> Inr (sql_limit n (sort_key mr_rank ms)))"

text \<open>The object pushed for a row; \<^verbatim>\<open>Math.abs(row.score)\<close> is the score.\<close>

definition push_result :: "result_type \<Rightarrow> match_row \<Rightarrow> SearchResult" where
  "push_result ty row =
     \<lparr>sr_type = ty, sr_citation = mr_citation row, sr_titleName = mr_titleName row,
      sr_chapterName = (if ty = Court_Rule then Some [] else mr_chapterName row),
      sr_sectionName = mr_sectionName row, sr_snippet = mr_snippet row,
      sr_score = \<bar>mr_rank row\<bar>\<rparr>"

text \<open>\<^verbatim>\<open>results.sort((a, b) => (b.score || 0) - (a.score || 0))\<close>: a stable sort, larger
  scores first.\<close>

definition sort_by_score :: "SearchResult list \<Rightarrow> SearchResult list" where
  "sort_by_score results = sort_key (\<lambda>r. - sr_score r) results"

text \<open>\<^verbatim>\<open>results.slice(0, n)\<close>: a negative \<open>n\<close> counts from the end.\<close>

definition slice0 :: "int \<Rightarrow> 'a list \<Rightarrow> 'a list" where
  "slice0 n xs = (if n < 0 then take (length xs - nat (- n)) xs else take (nat n) xs)"

text \<open>
  \<^verbatim>\<open>searchLaws(query, limit)\<close> for a whole-number limit. What the RCW or the WAC statement
  throws leaves the method (\<open>Inl\<close>). The court-rules part sits in a \<^verbatim>\<open>try\<close> whose
  \<^verbatim>\<open>catch\<close> is empty: \<open>None\<close> is a database without that table, where preparing the
  statement throws; then, and when the statement throws, no row is pushed.
\<close>

definition searchLaws ::
  "match_outcome \<Rightarrow> match_outcome \<Rightarrow> match_outcome option \<Rightarrow> int \<Rightarrow>
   js_error + SearchResult list" where
  "searchLaws rcw wac court limit =
     (let perTypeLimit = limit div 3 in
      case stmt_all rcw perTypeLimit of
        Inl e \<Rightarrow> Inl e
      | Inr rcwResults \<Rightarrow>
          (case stmt_all wac perTypeLimit of
             Inl e \<Rightarrow> Inl e
           | Inr wacResults \<Rightarrow>
               (let courtResults =
                      (case court of
                         None \<Rightarrow> []
                       | Some outcome \<Rightarrow>
                           (case stmt_all outcome perTypeLimit of
                              Inl e \<Rightarrow> []
                            | Inr rows \<Rightarrow> rows))
                in Inr (slice0 limit
                         (sort_by_score
                            (map (push_result RCW) rcwResults
                             @ map (push_result WAC) wacResults
                             @ map (push_result Court_Rule) courtResults))))))"



section \<open>Hierarchical browsing\<close>

text \<open>The table \<^verbatim>\<open>rcw\<close> of \<^verbatim>\<open>initializeDatabase\<close>.\<close>

record rcw_row =
  rcw_id :: nat
  rcw_citation :: string
  rcw_title_num :: string
  rcw_chapter_num :: string
  rcw_section_num :: string
  rcw_title_name :: "string option"
  rcw_chapter_name :: "string option"
  rcw_section_name :: "string option"
  rcw_full_text :: string
  rcw_effective_date :: "string option"
  rcw_last_amended :: "string option"
  rcw_created_at :: nat
  rcw_updated_at :: nat

text \<open>
  SQLite's \<^verbatim>\<open>CAST(text AS INTEGER)\<close>: leading white space is skipped, an optional sign is
  read, then the longest run of decimal digits; with no digit the value is 0, and a
  value beyond 64 bits is the nearest 64-bit integer.
\<close>

definition is_digit :: "char \<Rightarrow> bool" where
  "is_digit c = (CHR ''0'' \<le> c \<and> c \<le> CHR ''9'')"

definition digit_val :: "char \<Rightarrow> nat" where
  "digit_val c = of_char c - 48"

definition digits_val :: "string \<Rightarrow> nat" where
  "digits_val ds = foldl (\<lambda>acc c. 10 * acc + digit_val c) 0 ds"

definition sql_space :: "char \<Rightarrow> bool" where
  "sql_space c = (of_char c \<in> {9, 10, 11, 12, 13, 32::nat})"

definition cast_integer :: "string \<Rightarrow> int" where
  "cast_integer s =
     (let t = dropWhile sql_space s;
          neg = (t \<noteq> [] \<and> hd t = CHR ''-'');
          u = (if t \<noteq> [] \<and> (hd t = CHR ''-'' \<or> hd t = CHR ''+'') then tl t else t);
          v = int (digits_val (takeWhile is_digit u))
      in if neg then max (- v) (- 9223372036854775808) else min v 9223372036854775807)"

text \<open>
  SQL groups: the distinct values of the grouping columns among the selected rows, in
  the order of the engine's sort on those columns, each with its \<^verbatim>\<open>COUNT(*)\<close>. Text is
  compared byte by byte (the BINARY collation), NULL before every text.
\<close>

definition group_count ::
  "('r \<Rightarrow> string \<times> string option) \<Rightarrow> 'r list \<Rightarrow> (string \<times> string option \<times> nat) list" where
  "group_count cols sel =
     map (\<lambda>g. (fst g, snd g, length (filter (\<lambda>r. cols r = g) sel)))
       (sort (remdups (map cols sel)))"

text \<open>\<^verbatim>\<open>listRCWTitles\<close>: \<^verbatim>\<open>GROUP BY title_num, title_name ORDER BY CAST(title_num AS
  INTEGER), title_num\<close>.\<close>

definition listRCWTitles :: "rcw_row list \<Rightarrow> (string \<times> string option \<times> nat) list" where
  "listRCWTitles rcw =
     sort_key (\<lambda>g. (cast_integer (fst g), fst g))
       (group_count (\<lambda>r. (rcw_title_num r, rcw_title_name r)) rcw)"

text \<open>\<^verbatim>\<open>listRCWChapters(titleNum)\<close>: \<^verbatim>\<open>WHERE title_num = ? GROUP BY chapter_num,
  chapter_name ORDER BY chapter_num\<close>, the order of a TEXT column.\<close>

definition listRCWChapters :: "rcw_row list \<Rightarrow> string \<Rightarrow> (string \<times> string option \<times> nat) list" where
  "listRCWChapters rcw titleNum =
     sort_key fst
       (group_count (\<lambda>r. (rcw_chapter_num r, rcw_chapter_name r))
          (filter (\<lambda>r. rcw_title_num r = titleNum) rcw))"

text \<open>\<^verbatim>\<open>listRCWSections(chapterNum)\<close>: \<^verbatim>\<open>WHERE chapter_num = ? ORDER BY citation\<close>, again
  the order of a TEXT column.\<close>

definition listRCWSections :: "rcw_row list \<Rightarrow> string \<Rightarrow> (string \<times> string option) list" where
  "listRCWSections rcw chapterNum =
     map (\<lambda>r. (rcw_citation r, rcw_section_name r))
       (sort_key rcw_citation (filter (\<lambda>r. rcw_chapter_num r = chapterNum) rcw))"

text \<open>
  The two sort keys of \<^verbatim>\<open>listCourtRules\<close>. \<^verbatim>\<open>INSTR(rule_number || '.', '.')\<close> is the
  1-based position of the first dot, or one past the end; the first key casts what lies
  before it, the second what lies after it.
\<close>

definition instr_dot :: "string \<Rightarrow> nat" where
  "instr_dot s = Suc (length (takeWhile (\<lambda>c. c \<noteq> CHR ''.'') s))"

definition rule_major :: "string \<Rightarrow> int" where
  "rule_major s = cast_integer (take (instr_dot s - 1) s)"

definition rule_minor :: "string \<Rightarrow> int" where
  "rule_minor s = cast_integer (drop (instr_dot s) s)"

text \<open>\<^verbatim>\<open>listCourtRules(ruleSet?)\<close>; an absent or empty \<^verbatim>\<open>ruleSet\<close> is falsy and lists every
  rule set.\<close>

definition listCourtRules ::
  "court_store \<Rightarrow> string option \<Rightarrow> (string \<times> string \<times> string option) list" where
  "listCourtRules db ruleSet =
     map (\<lambda>r. (cr_rule_set r, cr_rule_number r, cr_rule_name r))
       (case ruleSet of
          Some rs \<Rightarrow>
            if rs \<noteq> []
            then sort_key (\<lambda>r. (rule_major (cr_rule_number r), rule_minor (cr_rule_number r)))
                   (filter (\<lambda>r. cr_rule_set r = rs) (court_rules db))
            else sort_key (\<lambda>r. (cr_rule_set r, rule_major (cr_rule_number r),
                                rule_minor (cr_rule_number r))) (court_rules db)
        | None \<Rightarrow>
            sort_key (\<lambda>r. (cr_rule_set r, rule_major (cr_rule_number r),
                           rule_minor (cr_rule_number r))) (court_rules db))"

text \<open>
  The integer segments of a dotted number: the text between the dots, each piece read as
  an integer. Ascending numeric order of children is ascending order of these lists.
\<close>

fun split_dots :: "string \<Rightarrow> string list" where
  "split_dots [] = [] # []"
| "split_dots (c # cs) =
     (if c = CHR ''.'' then [] # split_dots cs
      else (case split_dots cs of [] \<Rightarrow> [c] # [] | w # ws \<Rightarrow> (c # w) # ws))"

definition segments :: "string \<Rightarrow> int list" where
  "segments s = map cast_integer (split_dots s)"

definition numeric_ascending :: "string list \<Rightarrow> bool" where
  "numeric_ascending nums = sorted (map segments nums)"

section \<open>Discovery: duplicates among the anchors of a listing page\<close>

text \<open>What a scraper collects for one anchor of a listing page, after it has read the rule
  number off the link (\<^verbatim>\<open>CourtRule\<close>, \<^verbatim>\<open>RALJRule\<close>, \<^verbatim>\<open>RPCRule\<close>, \<^verbatim>\<open>CourtRulePDF\<close>).\<close>

record rule_link =
  ruleSet :: string
  ruleNumber :: string
  ruleName :: string
  url :: string

text \<open>
  The PDF scrapers (\<^verbatim>\<open>RALJScraper\<close>, \<^verbatim>\<open>RPCScraper\<close>, \<^verbatim>\<open>CourtRulesPDFScraperV2\<close>) guard the
  push inside the loop over the anchors:
  \<^verbatim>\<open>if (!rules.find(r => r.ruleNumber === ruleNumber)) rules.push(...)\<close>.
\<close>

definition push_unless_found :: "rule_link list \<Rightarrow> rule_link \<Rightarrow> rule_link list" where
  "push_unless_found rules x =
     (if find (\<lambda>r. ruleNumber r = ruleNumber x) rules = None then rules @ [x] else rules)"

definition find_dedup :: "rule_link list \<Rightarrow> rule_link list" where
  "find_dedup links = foldl push_unless_found [] links"

text \<open>
  \<^verbatim>\<open>CourtRulesScraper.scrapeRuleSet\<close> pushes every link and removes duplicates afterwards:
  \<^verbatim>\<open>Array.from(new Map(rules.map(r => [`${r.ruleSet}-${r.ruleNumber}`, r])).values())\<close>.
  A JavaScript \<^verbatim>\<open>Map\<close> keeps its keys in the order of their first insertion; setting a key
  that is present replaces its value where it stands.
\<close>

fun Map_set :: "'k \<Rightarrow> 'v \<Rightarrow> ('k \<times> 'v) list \<Rightarrow> ('k \<times> 'v) list" where
  "Map_set k v [] = [(k, v)]"
| "Map_set k v ((k', v') # m) = (if k' = k then (k, v) # m else (k', v') # Map_set k v m)"

definition new_Map :: "('k \<times> 'v) list \<Rightarrow> ('k \<times> 'v) list" where
  "new_Map entries = foldl (\<lambda>m e. Map_set (fst e) (snd e) m) [] entries"

definition uniqueRules :: "rule_link list \<Rightarrow> rule_link list" where
  "uniqueRules rules =
     map snd (new_Map (map (\<lambda>r. (ruleSet r @ ''-'' @ ruleNumber r, r)) rules))"

text \<open>
  The rule as the specification words it: of the artifacts with one canonical identifier,
  keep the first encountered, in discovery order.
\<close>

fun keep_first :: "('a \<Rightarrow> 'k) \<Rightarrow> 'k list \<Rightarrow> 'a list \<Rightarrow> 'a list" where
  "keep_first key seen [] = []"
| "keep_first key seen (x # xs) =
     (if key x \<in> set seen then keep_first key seen xs
      else x # keep_first key (key x # seen) xs)"

section \<open>Rule numbers from PDF file names\<close>

text \<open>
  The three digit groups a file-name pattern captures are strings of decimal digits.
  \<^verbatim>\<open>parseInt\<close> reads the longest prefix of digits, \<open>None\<close> being \<^verbatim>\<open>NaN\<close>; a number is
  printed in decimal without leading zeros. Numbers are naturals here, which is exact
  below \<open>2^53\<close>.
\<close>

definition parseInt :: "string \<Rightarrow> nat option" where
  "parseInt s =
     (let ds = takeWhile is_digit s in if ds = [] then None else Some (digits_val ds))"

definition digit_char :: "nat \<Rightarrow> char" where
  "digit_char d = char_of (48 + d)"

fun string_of_nat :: "nat \<Rightarrow> string" where
  "string_of_nat n =
     (if n < 10 then [digit_char n] else string_of_nat (n div 10) @ [digit_char (n mod 10)])"

definition string_of_number :: "nat option \<Rightarrow> string" where
  "string_of_number v = (case v of None \<Rightarrow> ''NaN'' | Some n \<Rightarrow> string_of_nat n)"


text \<open>
  \<^verbatim>\<open>RPCScraper\<close>, from the groups of \<^verbatim>\<open>/GA_RPC_(\d+)_(\d+)_(\d+)\.pdf/i\<close>: a third group
  other than \<^verbatim>\<open>'00'\<close> appends \<^verbatim>\<open>String.fromCharCode(96 + parseInt(...))\<close>, the letter
  \<open>a\<close> for 1. A \<^typ>\<open>char\<close> is one byte, so the letter is exact for code units up to 255,
  which covers every third group of one or two digits; \<^verbatim>\<open>fromCharCode(NaN)\<close> is the code
  unit 0.
\<close>

definition fromCharCode :: "nat option \<Rightarrow> char" where
  "fromCharCode v = (case v of None \<Rightarrow> char_of (0::nat) | Some n \<Rightarrow> char_of n)"

definition rpc_ruleNumber :: "string \<Rightarrow> string \<Rightarrow> string \<Rightarrow> string" where
  "rpc_ruleNumber f1 f2 f3 =
     (let ruleNumber = string_of_number (parseInt f1) @ ''.'' @ string_of_number (parseInt f2)
      in if f3 \<noteq> ''00''
         then ruleNumber @ [fromCharCode (map_option (\<lambda>n. 96 + n) (parseInt f3))]
         else ruleNumber)"



section \<open>Text extraction from PDF: where the body starts\<close>

text \<open>
  The patterns the extractors build are a tag, \<^verbatim>\<open>\s+\<close>, and the rule number, searched
  without regard to case. For tags and rule numbers made of letters, digits and dots such a
  pattern is a sequence of three kinds of atom: a literal character, the dot that matches
  any character but a line terminator, and \<^verbatim>\<open>\s+\<close>.
\<close>

datatype atom = Lit char | AnyChar | Spaces

definition to_upper :: "char \<Rightarrow> char" where
  "to_upper c =
     (if CHR ''a'' \<le> c \<and> c \<le> CHR ''z'' then char_of (of_char c - (32::nat)) else c)"

definition is_space :: "char \<Rightarrow> bool" where
  "is_space c = (of_char c \<in> {9, 10, 11, 12, 13, 32, 160::nat})"

definition line_terminator :: "char \<Rightarrow> bool" where
  "line_terminator c = (of_char c \<in> {10, 13::nat})"

fun match_here :: "atom list \<Rightarrow> string \<Rightarrow> bool" where
  "match_here [] s = True"
| "match_here (a # p) [] = False"
| "match_here (Lit c # p) (x # xs) = (to_upper c = to_upper x \<and> match_here p xs)"
| "match_here (AnyChar # p) (x # xs) = (\<not> line_terminator x \<and> match_here p xs)"
| "match_here (Spaces # p) (x # xs) =
     (is_space x \<and> (match_here (Spaces # p) xs \<or> match_here p xs))"

text \<open>\<^verbatim>\<open>text.search(pattern)\<close>: the index of the leftmost match, or \<open>-1\<close>.\<close>

fun search_from :: "atom list \<Rightarrow> string \<Rightarrow> nat \<Rightarrow> int" where
  "search_from p [] i = (if match_here p [] then int i else - 1)"
| "search_from p (x # xs) i =
     (if match_here p (x # xs) then int i else search_from p xs (Suc i))"

definition search :: "string \<Rightarrow> atom list \<Rightarrow> int" where
  "search text p = search_from p text 0"

text \<open>
  How a rule number enters a pattern. \<^verbatim>\<open>RALJScraper\<close> escapes every dot
  (\<^verbatim>\<open>replace(/\./g, '\\.')\<close>), \<^verbatim>\<open>RPCScraper\<close> the first one (\<^verbatim>\<open>replace('.', '\\.')\<close>), and
  \<^verbatim>\<open>CourtRulesPDFScraperV2\<close> none.
\<close>

definition unescaped :: "string \<Rightarrow> atom list" where
  "unescaped s = map (\<lambda>c. if c = CHR ''.'' then AnyChar else Lit c) s"

definition escape_all :: "string \<Rightarrow> atom list" where
  "escape_all s = map Lit s"

definition escape_first :: "string \<Rightarrow> atom list" where
  "escape_first s =
     (let front = takeWhile (\<lambda>c. c \<noteq> CHR ''.'') s; rest = dropWhile (\<lambda>c. c \<noteq> CHR ''.'') s
      in map Lit front @ (case rest of [] \<Rightarrow> [] | d # tail \<Rightarrow> Lit d # unescaped tail))"

text \<open>
  The step of \<^verbatim>\<open>downloadAndParseRule\<close> that drops what precedes the rule heading, on the
  text as cleaned up before it. In \<^verbatim>\<open>RALJScraper\<close> and \<^verbatim>\<open>RPCScraper\<close>:
  \<^verbatim>\<open>if (ruleStart > 0 && ruleStart < 100) fullText = fullText.substring(ruleStart)\<close>.
\<close>

definition ralj_body_start :: "string \<Rightarrow> string \<Rightarrow> string" where
  "ralj_body_start number fullText =
     (let ruleStart = search fullText (map Lit ''RALJ'' @ [Spaces] @ escape_all number)
      in if ruleStart > 0 \<and> ruleStart < 100 then drop (nat ruleStart) fullText else fullText)"

definition rpc_body_start :: "string \<Rightarrow> string \<Rightarrow> string" where
  "rpc_body_start number fullText =
     (let ruleStart = search fullText (map Lit ''RPC'' @ [Spaces] @ escape_first number)
      in if ruleStart > 0 \<and> ruleStart < 100 then drop (nat ruleStart) fullText else fullText)"

text \<open>In \<^verbatim>\<open>CourtRulesPDFScraperV2\<close>:
  \<^verbatim>\<open>if (ruleStart > 0) fullText = fullText.substring(ruleStart)\<close>.\<close>

definition v2_body_start :: "string \<Rightarrow> string \<Rightarrow> string \<Rightarrow> string" where
  "v2_body_start tag number fullText =
     (let ruleStart = search fullText (unescaped tag @ [Spaces] @ unescaped number)
      in if ruleStart > 0 then drop (nat ruleStart) fullText else fullText)"

section \<open>The tool-call handler\<close>

text \<open>
  The arguments of a tool call are JSON values the handler reads with \<^verbatim>\<open>args?.name\<close>; a
  missing one is \<^verbatim>\<open>undefined\<close>. What is thrown inside the handler's \<^verbatim>\<open>try\<close> is an
  \<^verbatim>\<open>Error\<close> object with a message (\<^typ>\<open>js_error\<close>): the database library throws such
  objects, and so does the \<^verbatim>\<open>default\<close> branch.
\<close>

datatype jsval = JUndefined | JStr string | JNum int

definition string_of_int :: "int \<Rightarrow> string" where
  "string_of_int i = (if i < 0 then ''-'' @ string_of_nat (nat (- i)) else string_of_nat (nat i))"

text \<open>A value inside a template string.\<close>

definition template :: "jsval \<Rightarrow> string" where
  "template v =
     (case v of JUndefined \<Rightarrow> ''undefined'' | JStr s \<Rightarrow> s | JNum i \<Rightarrow> string_of_int i)"

definition truthy :: "jsval \<Rightarrow> bool" where
  "truthy v = (case v of JUndefined \<Rightarrow> False | JStr s \<Rightarrow> s \<noteq> [] | JNum i \<Rightarrow> i \<noteq> 0)"

definition arg :: "(string \<rightharpoonup> jsval) \<Rightarrow> string \<Rightarrow> jsval" where
  "arg args k = (case args k of None \<Rightarrow> JUndefined | Some v \<Rightarrow> v)"

text \<open>
  The methods of \<^verbatim>\<open>LawDatabase\<close> as the handler calls them: each returns its value or
  throws (a statement that cannot be prepared, a query the engine rejects, an argument it
  cannot bind). The handler is verified for every behaviour of this kind, so the methods
  are fields of a record; the types of the rows they return are parameters.
\<close>

record ('sec, 'rule, 'hit, 'grp, 'stats) LawDatabase =
  db_getRCW :: "jsval \<Rightarrow> js_error + 'sec option"
  db_getWAC :: "jsval \<Rightarrow> js_error + 'sec option"
  db_getCourtRule :: "jsval \<Rightarrow> jsval \<Rightarrow> js_error + 'rule option"
  db_listCourtRules :: "jsval \<Rightarrow> js_error + 'rule list"
  db_searchLaws :: "jsval \<Rightarrow> jsval \<Rightarrow> js_error + 'hit list"
  db_listRCWTitles :: "js_error + 'grp list"
  db_listRCWChapters :: "jsval \<Rightarrow> js_error + 'grp list"
  db_listRCWSections :: "jsval \<Rightarrow> js_error + 'sec list"
  db_getStatistics :: "js_error + 'stats"

text \<open>
  What the handler returns is always \<^verbatim>\<open>{ content: [{ type: 'text', text }] }\<close>. The text is
  either rendered from what a database method returned, or a message that nothing was
  found, or \<^verbatim>\<open>Error: \<close> followed by the message of what was caught.
\<close>

datatype ('sec, 'rule, 'hit, 'grp, 'stats) found =
    Section 'sec
  | Rule 'rule
  | Rules "'rule list"
  | Hits "'hit list"
  | Groups "'grp list"
  | Sections "'sec list"
  | Statistics 'stats

datatype ('sec, 'rule, 'hit, 'grp, 'stats) tool_response =
    Found "('sec, 'rule, 'hit, 'grp, 'stats) found"
  | NotFound string
  | ErrorText string

text \<open>The body of the \<^verbatim>\<open>try\<close>: the \<^verbatim>\<open>switch\<close> on the tool name. \<open>Inl\<close> is a throw.\<close>

definition tool_switch ::
  "('sec, 'rule, 'hit, 'grp, 'stats) LawDatabase \<Rightarrow> string \<Rightarrow> (string \<rightharpoonup> jsval) \<Rightarrow>
   js_error + ('sec, 'rule, 'hit, 'grp, 'stats) tool_response" where
  "tool_switch db name args =
     (if name = ''get_rcw'' then
        (let citation = arg args ''citation'' in
         case db_getRCW db citation of
           Inl e \<Rightarrow> Inl e
         | Inr None \<Rightarrow> Inr (NotFound (''RCW '' @ template citation @ '' not found in database.''))
         | Inr (Some rcw) \<Rightarrow> Inr (Found (Section rcw)))
      else if name = ''get_wac'' then
        (let citation = arg args ''citation'' in
         case db_getWAC db citation of
           Inl e \<Rightarrow> Inl e
         | Inr None \<Rightarrow> Inr (NotFound (''WAC '' @ template citation @ '' not found in database.''))
         | Inr (Some wac) \<Rightarrow> Inr (Found (Section wac)))
      else if name = ''get_court_rule'' then
        (let rs = arg args ''ruleSet''; rn = arg args ''ruleNumber'' in
         case db_getCourtRule db rs rn of
           Inl e \<Rightarrow> Inl e
         | Inr None \<Rightarrow>
             Inr (NotFound (template rs @ '' '' @ template rn @ '' not found in database.''))
         | Inr (Some rule) \<Rightarrow> Inr (Found (Rule rule)))
      else if name = ''list_court_rules'' then
        (let rs = arg args ''ruleSet'' in
         case db_listCourtRules db rs of
           Inl e \<Rightarrow> Inl e
         | Inr rules \<Rightarrow>
             if length rules = 0
             then Inr (NotFound (if truthy rs then ''No rules found for '' @ template rs
                                 else ''No court rules found''))
             else Inr (Found (Rules rules)))
      else if name = ''search_laws'' then
        (let query = arg args ''query'';
             limit = (if truthy (arg args ''limit'') then arg args ''limit'' else JNum 20) in
         case db_searchLaws db query limit of
           Inl e \<Rightarrow> Inl e
         | Inr results \<Rightarrow>
             if length results = 0
             then Inr (NotFound (''No results found for query: '' @ [CHR 0x22] @ template query @ [CHR 0x22]))
             else Inr (Found (Hits results)))
      else if name = ''list_rcw_titles'' then
        (case db_listRCWTitles db of
           Inl e \<Rightarrow> Inl e
         | Inr titles \<Rightarrow> Inr (Found (Groups titles)))
      else if name = ''list_rcw_chapters'' then
        (let titleNum = arg args ''titleNum'' in
         case db_listRCWChapters db titleNum of
           Inl e \<Rightarrow> Inl e
         | Inr chapters \<Rightarrow>
             if length chapters = 0
             then Inr (NotFound (''No chapters found for Title '' @ template titleNum))
             else Inr (Found (Groups chapters)))
      else if name = ''list_rcw_sections'' then
        (let chapterNum = arg args ''chapterNum'' in
         case db_listRCWSections db chapterNum of
           Inl e \<Rightarrow> Inl e
         | Inr sections \<Rightarrow>
             if length sections = 0
             then Inr (NotFound (''No sections found for Chapter '' @ template chapterNum))
             else Inr (Found (Sections sections)))
      else if name = ''get_statistics'' then
        (case db_getStatistics db of
           Inl e \<Rightarrow> Inl e
         | Inr stats \<Rightarrow> Inr (Found (Statistics stats)))
      else Inl (Error (''Unknown tool: '' @ name)))"

text \<open>
  The handler registered for \<^verbatim>\<open>CallToolRequestSchema\<close>: the \<^verbatim>\<open>switch\<close> inside
  \<^verbatim>\<open>try\<close>, and the \<^verbatim>\<open>catch\<close> that returns the error's message as text. \<open>Inl\<close> would
  be an exception that leaves the handler.
\<close>

definition CallTool ::
  "('sec, 'rule, 'hit, 'grp, 'stats) LawDatabase \<Rightarrow> string \<Rightarrow> (string \<rightharpoonup> jsval) \<Rightarrow>
   js_error + ('sec, 'rule, 'hit, 'grp, 'stats) tool_response" where
  "CallTool db name args =
     (case tool_switch db name args of
        Inl error \<Rightarrow> Inr (ErrorText (''Error: '' @ message error))
      | Inr response \<Rightarrow> Inr response)"

definition tool_names :: "string list" where
  "tool_names =
     [''get_rcw'', ''get_court_rule'', ''list_court_rules'', ''get_wac'', ''search_laws'',
      ''list_rcw_titles'', ''list_rcw_chapters'', ''list_rcw_sections'', ''get_statistics'']"

section \<open>Sample data\<close>

text \<open>Rows, links and a database interface used where a statement is run on concrete
  input.\<close>

definition hit :: "string \<Rightarrow> real \<Rightarrow> match_row" where
  "hit citation rank =
     \<lparr>mr_citation = citation, mr_titleName = None, mr_chapterName = None,
      mr_sectionName = None, mr_snippet = [], mr_rank = rank\<rparr>"

definition section_row :: "nat \<Rightarrow> string \<Rightarrow> string \<Rightarrow> string \<Rightarrow> rcw_row" where
  "section_row i citation title chapter =
     \<lparr>rcw_id = i, rcw_citation = citation, rcw_title_num = title, rcw_chapter_num = chapter,
      rcw_section_num = [], rcw_title_name = None, rcw_chapter_name = None,
      rcw_section_name = None, rcw_full_text = ''text'', rcw_effective_date = None,
      rcw_last_amended = None, rcw_created_at = 0, rcw_updated_at = 0\<rparr>"

definition anchor :: "string \<Rightarrow> string \<Rightarrow> string \<Rightarrow> rule_link" where
  "anchor number name href =
     \<lparr>ruleSet = ''IRLJ'', ruleNumber = number, ruleName = name, url = href\<rparr>"

text \<open>A database interface over one RCW section: it cannot bind \<^verbatim>\<open>undefined\<close>, knows the
  citation 46.61.502, and has nothing else.\<close>

definition one_section_db :: "(string, string, string, string, nat) LawDatabase" where
  "one_section_db =
     \<lparr>db_getRCW = (\<lambda>c. if c = JUndefined then Inl (Error ''cannot bind undefined'')
                        else if c = JStr ''46.61.502'' then Inr (Some ''Driving under the influence'')
                        else Inr None),
      db_getWAC = (\<lambda>c. Inr None),
      db_getCourtRule = (\<lambda>rs rn. Inr None),
      db_listCourtRules = (\<lambda>rs. Inr []),
      db_searchLaws = (\<lambda>q n. Inr []),
      db_listRCWTitles = Inr [''46''],
      db_listRCWChapters = (\<lambda>t. Inr []),
      db_listRCWSections = (\<lambda>c. Inr []),
      db_getStatistics = Inr 1\<rparr>"


definition irlj_db :: court_store where
  "irlj_db =
     insertStmt_run 2 ''IRLJ'' ''6.2'' ''Monetary Penalty Schedule'' ''IRLJ 6.2 text''
       (insertStmt_run 1 ''IRLJ'' ''6.0'' ''Penalties'' ''IRLJ 6.0 text'' new_Database)"

text \<open>The cleaned text of a rule whose body mentions its own number late, in the two
  rule sets.\<close>

definition crlj_text :: string where
  "crlj_text = ''SCOPE OF RULES These rules govern the procedure in all courts of limited jurisdiction with the exceptions stated in CRLJ 1.1 and CRLJ 81.''"

definition ralj_text :: string where
  "ralj_text = ''SCOPE OF RULES These rules govern the procedure in all courts of limited jurisdiction with the exceptions stated in RALJ 1.1 and RALJ 81.''"

section \<open>Properties of the store\<close>

lemma fold_replace_delete_rows:
  "court_rules (fold replace_delete cs db) =
     filter (\<lambda>r. cr_id r \<notin> cr_id ` set cs) (court_rules db)"
proof (induction cs arbitrary: db)
  case Nil
  show ?case by simp
next
  case (Cons c cs)
  have "court_rules (replace_delete c db) = filter (\<lambda>r. cr_id r \<noteq> cr_id c) (court_rules db)"
    by (simp add: replace_delete_def)
  with Cons show ?case
    by (simp add: conj_commute)
qed

lemma fold_replace_delete_fts:
  "court_rules_fts (fold replace_delete cs db) = court_rules_fts db"
  by (induction cs arbitrary: db) (simp_all add: replace_delete_def)

lemma fold_max_grows: "b \<le> fold max ys (b::nat)"
proof (induction ys arbitrary: b)
  case Nil
  show ?case by simp
next
  case (Cons z zs)
  have "b \<le> max z b" by simp
  also have "\<dots> \<le> fold max zs (max z b)" by (rule Cons.IH)
  finally show ?case by simp
qed

lemma fold_max_upper: "x \<in> set xs \<Longrightarrow> x \<le> fold max xs (a::nat)"
proof (induction xs arbitrary: a)
  case Nil
  then show ?case by simp
next
  case (Cons y ys)
  show ?case
  proof (cases "x = y")
    case True
    have "y \<le> max y a" by simp
    also have "\<dots> \<le> fold max ys (max y a)" by (rule fold_max_grows)
    finally show ?thesis using True by simp
  next
    case False
    with Cons.prems have "x \<in> set ys" by simp
    then show ?thesis using Cons.IH by simp
  qed
qed

text \<open>The two tables after one run of the insert statement.\<close>

lemma insertStmt_run_rows:
  "court_rules (insertStmt_run now rs rn name txt db) =
     filter (\<lambda>r. \<not> (cr_rule_set r = rs \<and> cr_rule_number r = rn)
                 \<and> cr_id r \<notin> cr_id ` {c \<in> set (court_rules db).
                                          cr_rule_set c = rs \<and> cr_rule_number c = rn})
       (court_rules db)
     @ [\<lparr>cr_id = Suc (fold max (map cr_id (court_rules db)) (court_rules_seq db)),
         cr_rule_set = rs, cr_rule_number = rn, cr_rule_name = Some name,
         cr_full_text = txt, cr_effective_date = None, cr_created_at = now,
         cr_updated_at = now\<rparr>]"
  unfolding insertStmt_run_def Let_def court_rules_ai_def
  apply (simp add: fold_replace_delete_rows)
  apply (rule filter_cong)
   apply auto
  done

lemma insertStmt_run_fts:
  "court_rules_fts (insertStmt_run now rs rn name txt db) =
     court_rules_fts db
     @ [\<lparr>fts_rowid = Suc (fold max (map cr_id (court_rules db)) (court_rules_seq db)),
         fts_rule_set = rs, fts_rule_number = rn, fts_rule_name = Some name,
         fts_full_text = txt\<rparr>]"
  unfolding insertStmt_run_def Let_def court_rules_ai_def
  by (simp add: fold_replace_delete_fts fts_of_def)



text \<open>The index stays in step with the table when the key upserted is not stored yet.\<close>

lemma upsert_new_key_keeps_sync:
  assumes sync: "fts_in_sync db"
    and new_key: "primary_rows_for rs rn db = []"
  shows "fts_in_sync (insertStmt_run now rs rn name txt db)"
proof -
  define newid where "newid = Suc (fold max (map cr_id (court_rules db)) (court_rules_seq db))"
  define new where "new = \<lparr>cr_id = newid, cr_rule_set = rs, cr_rule_number = rn,
      cr_rule_name = Some name, cr_full_text = txt, cr_effective_date = None,
      cr_created_at = now, cr_updated_at = now\<rparr>"
  have "filter (\<lambda>r. \<not> (cr_rule_set r = rs \<and> cr_rule_number r = rn)
                 \<and> cr_id r \<notin> cr_id ` {c \<in> set (court_rules db).
                                          cr_rule_set c = rs \<and> cr_rule_number c = rn})
       (court_rules db) = court_rules db"
    using new_key by (auto simp add: primary_rows_for_def filter_empty_conv filter_id_conv)
  then have rows: "court_rules (insertStmt_run now rs rn name txt db) = court_rules db @ [new]"
    by (simp add: insertStmt_run_rows new_def newid_def)
  have fts: "court_rules_fts (insertStmt_run now rs rn name txt db) =
      court_rules_fts db @ [fts_of new]"
    by (simp add: insertStmt_run_fts new_def newid_def fts_of_def)
  have s1: "\<And>r. r \<in> set (court_rules db) \<Longrightarrow>
      filter (\<lambda>f. fts_rowid f = cr_id r) (court_rules_fts db) = [fts_of r]"
    and s2: "\<And>f. f \<in> set (court_rules_fts db) \<Longrightarrow>
      fts_rowid f \<in> cr_id ` set (court_rules db)"
    using sync by (auto simp add: fts_in_sync_def list_all_iff)
  have below: "\<And>r. r \<in> set (court_rules db) \<Longrightarrow> cr_id r < newid"
    unfolding newid_def using fold_max_upper [of _ "map cr_id (court_rules db)"]
    by (fastforce simp add: less_Suc_eq_le)
  have fresh: "\<And>f. f \<in> set (court_rules_fts db) \<Longrightarrow> fts_rowid f \<noteq> newid"
    using s2 below by fastforce
  have a: "filter (\<lambda>f. fts_rowid f = cr_id r) (court_rules_fts db @ [fts_of new]) = [fts_of r]"
    if r: "r \<in> set (court_rules db)" for r
  proof -
    have "cr_id r \<noteq> newid" using below [OF r] by simp
    then show ?thesis using s1 [OF r] by (simp add: fts_of_def new_def)
  qed
  have b: "filter (\<lambda>f. fts_rowid f = cr_id new) (court_rules_fts db @ [fts_of new]) =
      [fts_of new]"
  proof -
    have "filter (\<lambda>f. fts_rowid f = newid) (court_rules_fts db) = []"
      using fresh by (auto simp add: filter_empty_conv)
    then show ?thesis by (simp add: new_def fts_of_def)
  qed
  have c: "fts_rowid f \<in> cr_id ` set (court_rules db @ [new])"
    if "f \<in> set (court_rules_fts db @ [fts_of new])" for f
    using that s2 by (auto simp add: fts_of_def)
  show ?thesis
    unfolding fts_in_sync_def rows fts list_all_iff
    using a b c by auto
qed

text \<open>It does not when the key is stored: the index row of the replaced row remains, and
  every upsert adds one index row of its key.\<close>

lemma upsert_stored_key_breaks_sync:
  assumes sync: "fts_in_sync db"
    and stored: "primary_rows_for rs rn db \<noteq> []"
  shows "\<not> fts_in_sync (insertStmt_run now rs rn name txt db)"
proof
  assume after: "fts_in_sync (insertStmt_run now rs rn name txt db)"
  from stored obtain old where old: "old \<in> set (court_rules db)"
    "cr_rule_set old = rs \<and> cr_rule_number old = rn"
    by (auto simp add: primary_rows_for_def filter_empty_conv)
  from sync old(1) have "filter (\<lambda>f. fts_rowid f = cr_id old) (court_rules_fts db) = [fts_of old]"
    by (simp add: fts_in_sync_def list_all_iff)
  then have "fts_of old \<in> set (filter (\<lambda>f. fts_rowid f = cr_id old) (court_rules_fts db))"
    by simp
  then have "fts_of old \<in> set (court_rules_fts (insertStmt_run now rs rn name txt db))"
    by (simp add: insertStmt_run_fts)
  with after have member:
    "cr_id old \<in> cr_id ` set (court_rules (insertStmt_run now rs rn name txt db))"
    by (auto simp add: fts_in_sync_def list_all_iff fts_of_def)
  define C where "C = cr_id ` {c \<in> set (court_rules db).
                                 cr_rule_set c = rs \<and> cr_rule_number c = rn}"
  define newid where "newid = Suc (fold max (map cr_id (court_rules db)) (court_rules_seq db))"
  have inC: "cr_id old \<in> C"
    unfolding C_def using old by blast
  have "cr_id old \<le> fold max (map cr_id (court_rules db)) (court_rules_seq db)"
    using old(1) by (intro fold_max_upper) simp
  then have below: "cr_id old \<noteq> newid"
    by (simp add: newid_def)
  have "cr_id ` set (court_rules (insertStmt_run now rs rn name txt db)) \<subseteq> (- C) \<union> {newid}"
    by (auto simp add: insertStmt_run_rows C_def newid_def)
  with member inC below show False by blast
qed

lemma upsert_index_rows_grow:
  "index_rows_for rs rn (insertStmt_run now rs rn name txt db) =
     index_rows_for rs rn db
     @ [\<lparr>fts_rowid = Suc (fold max (map cr_id (court_rules db)) (court_rules_seq db)),
         fts_rule_set = rs, fts_rule_number = rn, fts_rule_name = Some name,
         fts_full_text = txt\<rparr>]"
  by (simp add: index_rows_for_def insertStmt_run_fts)

text \<open>
  C1. An upsert changes the primary row and its search-index row together: afterwards
  every primary row has exactly one index row of its identity, and every index row has a
  primary row. This fails when the key is already stored: the first upsert of CRLJ 1.1
  stores row 1 and index row 1; the second stores row 2 and index row 2 and deletes row 1,
  whose index row stays, so the index holds a row, with the old text, that no primary row
  answers to.
\<close>

theorem upsert_twice_leaves_stale_index_row:
  "let db = insertStmt_run 2 ''CRLJ'' ''1.1'' ''Scope'' ''new text''
              (insertStmt_run 1 ''CRLJ'' ''1.1'' ''Scope'' ''old text'' new_Database)
   in map cr_id (court_rules db) = [2]
      \<and> map fts_rowid (court_rules_fts db) = [1, 2]
      \<and> map fts_full_text (court_rules_fts db) = [''old text'', ''new text'']
      \<and> \<not> fts_in_sync db"
  by (simp add: insertStmt_run_def new_Database_def replace_delete_def court_rules_ai_def
      fts_of_def fts_in_sync_def Let_def)

text \<open>
  C2. Upsert is idempotent: the same record applied twice leaves exactly one primary row
  and exactly one search-index row of its key. The second application leaves one primary
  row and two index rows of the key.
\<close>

theorem upsert_same_record_twice_duplicates_index_row:
  "let db1 = insertStmt_run 1 ''CRLJ'' ''1.1'' ''Scope'' ''text'' new_Database;
       db2 = insertStmt_run 1 ''CRLJ'' ''1.1'' ''Scope'' ''text'' db1
   in length (primary_rows_for ''CRLJ'' ''1.1'' db1) = 1
      \<and> length (index_rows_for ''CRLJ'' ''1.1'' db1) = 1
      \<and> length (primary_rows_for ''CRLJ'' ''1.1'' db2) = 1
      \<and> length (index_rows_for ''CRLJ'' ''1.1'' db2) = 2"
  by (simp add: insertStmt_run_def new_Database_def replace_delete_def court_rules_ai_def
      fts_of_def primary_rows_for_def index_rows_for_def Let_def)

section \<open>Properties of the search\<close>







text \<open>
  C10. For every query string, with a requested limit of 1 or of 2 the search returns the
  empty list, whatever matches: the cap \<open>limit div 3\<close> is 0 and every family's statement
  runs with \<^verbatim>\<open>LIMIT 0\<close>.
\<close>

theorem searchLaws_small_limit_empty:
  "searchLaws rcw wac court 1 = Inr [] \<and> searchLaws rcw wac court 2 = Inr []"
  by (simp add: searchLaws_def stmt_all_def slice0_def sort_by_score_def Let_def
      split: option.split)

section \<open>Properties of the exact lookup\<close>

lemma stmt_get_rows:
  "stmt_get db rs rn =
     (case primary_rows_for rs rn db of [] \<Rightarrow> None | r # rest \<Rightarrow> Some (select_rule r))"
proof -
  have "find P xs = (case filter P xs of [] \<Rightarrow> None | r # rest \<Rightarrow> Some r)" for P and xs :: "court_rule list"
    by (induction xs) simp_all
  then show ?thesis
    by (simp add: stmt_get_def primary_rows_for_def split: list.split)
qed

lemma stmt_get_None: "stmt_get db rs rn = None \<longleftrightarrow> primary_rows_for rs rn db = []"
  by (simp add: stmt_get_rows split: list.split)

lemma irlj_db_rows:
  "court_rules irlj_db =
     [\<lparr>cr_id = 1, cr_rule_set = ''IRLJ'', cr_rule_number = ''6.0'',
        cr_rule_name = Some ''Penalties'', cr_full_text = ''IRLJ 6.0 text'',
        cr_effective_date = None, cr_created_at = 1, cr_updated_at = 1\<rparr>,
      \<lparr>cr_id = 2, cr_rule_set = ''IRLJ'', cr_rule_number = ''6.2'',
        cr_rule_name = Some ''Monetary Penalty Schedule'', cr_full_text = ''IRLJ 6.2 text'',
        cr_effective_date = None, cr_created_at = 2, cr_updated_at = 2\<rparr>]"
  by (simp add: irlj_db_def insertStmt_run_def new_Database_def replace_delete_def
      court_rules_ai_def Let_def)

text \<open>
  C5. A lookup by rule set and rule number returns the record of the exact key when it is
  stored. When it is not and the number has no dot, the statement is run once more, with
  \<open>.0\<close> appended, and its result is returned; a number with a dot is not retried. For a
  number without a dot the lookup finds nothing exactly when neither form is stored. The
  second component is the list of keys the statement was run with.
\<close>

theorem getCourtRule_fallback:
  "(primary_rows_for rs rn db = r # rest \<longrightarrow>
      getCourtRule_run db rs rn = (Some (select_rule r), [(rs, rn)]))
   \<and> (primary_rows_for rs rn db = [] \<and> CHR ''.'' \<notin> set rn \<longrightarrow>
      getCourtRule_run db rs rn =
        (stmt_get db rs (rn @ ''.0''), [(rs, rn), (rs, rn @ ''.0'')]))
   \<and> (primary_rows_for rs rn db = [] \<and> CHR ''.'' \<in> set rn \<longrightarrow>
      getCourtRule_run db rs rn = (None, [(rs, rn)]))
   \<and> (CHR ''.'' \<notin> set rn \<longrightarrow>
      (getCourtRule db rs rn = None \<longleftrightarrow>
         primary_rows_for rs rn db = [] \<and> primary_rows_for rs (rn @ ''.0'') db = []))"
proof (intro conjI impI)
  assume "primary_rows_for rs rn db = r # rest"
  then show "getCourtRule_run db rs rn = (Some (select_rule r), [(rs, rn)])"
    by (simp add: getCourtRule_run_def stmt_get_rows)
next
  assume "primary_rows_for rs rn db = [] \<and> CHR ''.'' \<notin> set rn"
  then show "getCourtRule_run db rs rn =
      (stmt_get db rs (rn @ ''.0''), [(rs, rn), (rs, rn @ ''.0'')])"
    by (simp add: getCourtRule_run_def stmt_get_None)
next
  assume "primary_rows_for rs rn db = [] \<and> CHR ''.'' \<in> set rn"
  then show "getCourtRule_run db rs rn = (None, [(rs, rn)])"
    by (simp add: getCourtRule_run_def stmt_get_None)
next
  assume "CHR ''.'' \<notin> set rn"
  then show "getCourtRule db rs rn = None \<longleftrightarrow>
      primary_rows_for rs rn db = [] \<and> primary_rows_for rs (rn @ ''.0'') db = []"
    by (auto simp add: getCourtRule_def getCourtRule_run_def Let_def stmt_get_None)
qed

theorem getCourtRule_fallback_witness:
  "primary_rows_for ''IRLJ'' ''6.2'' irlj_db \<noteq> []
   \<and> map_option res_fullText (getCourtRule irlj_db ''IRLJ'' ''6.2'') = Some ''IRLJ 6.2 text''
   \<and> snd (getCourtRule_run irlj_db ''IRLJ'' ''6.2'') = [(''IRLJ'', ''6.2'')]
   \<and> primary_rows_for ''IRLJ'' ''6'' irlj_db = [] \<and> CHR ''.'' \<notin> set ''6''
   \<and> map_option res_fullText (getCourtRule irlj_db ''IRLJ'' ''6'') = Some ''IRLJ 6.0 text''
   \<and> snd (getCourtRule_run irlj_db ''IRLJ'' ''6'') = [(''IRLJ'', ''6''), (''IRLJ'', ''6.0'')]
   \<and> primary_rows_for ''IRLJ'' ''6.3'' irlj_db = [] \<and> CHR ''.'' \<in> set ''6.3''
   \<and> getCourtRule_run irlj_db ''IRLJ'' ''6.3'' = (None, [(''IRLJ'', ''6.3'')])
   \<and> primary_rows_for ''IRLJ'' ''7'' irlj_db = []
   \<and> primary_rows_for ''IRLJ'' ''7.0'' irlj_db = []
   \<and> getCourtRule irlj_db ''IRLJ'' ''7'' = None"
proof -
  have g1: "primary_rows_for ''IRLJ'' ''6.2'' irlj_db =
      [\<lparr>cr_id = 2, cr_rule_set = ''IRLJ'', cr_rule_number = ''6.2'',
        cr_rule_name = Some ''Monetary Penalty Schedule'', cr_full_text = ''IRLJ 6.2 text'',
        cr_effective_date = None, cr_created_at = 2, cr_updated_at = 2\<rparr>]"
    and g2: "primary_rows_for ''IRLJ'' ''6'' irlj_db = []"
    and g3: "stmt_get irlj_db ''IRLJ'' ''6.0'' =
      Some \<lparr>res_ruleSet = ''IRLJ'', res_ruleNumber = ''6.0'',
            res_ruleName = Some ''Penalties'', res_fullText = ''IRLJ 6.0 text'',
            res_updatedAt = 1\<rparr>"
    and g4: "primary_rows_for ''IRLJ'' ''6.3'' irlj_db = []"
    and g5: "primary_rows_for ''IRLJ'' ''7'' irlj_db = []"
    and g6: "primary_rows_for ''IRLJ'' ''7.0'' irlj_db = []"
    by (simp_all add: stmt_get_def primary_rows_for_def irlj_db_rows select_rule_def)
  have d1: "CHR ''.'' \<notin> set ''6''" and d2: "CHR ''.'' \<in> set ''6.3''"
    and d3: "CHR ''.'' \<notin> set ''7''"
    by simp_all
  from getCourtRule_fallback [of "''IRLJ''" "''6.2''" irlj_db] g1
  have c1: "getCourtRule_run irlj_db ''IRLJ'' ''6.2'' =
      (Some (select_rule \<lparr>cr_id = 2, cr_rule_set = ''IRLJ'', cr_rule_number = ''6.2'',
        cr_rule_name = Some ''Monetary Penalty Schedule'', cr_full_text = ''IRLJ 6.2 text'',
        cr_effective_date = None, cr_created_at = 2, cr_updated_at = 2\<rparr>),
       [(''IRLJ'', ''6.2'')])"
    by simp
  from getCourtRule_fallback [of "''IRLJ''" "''6''" irlj_db] g2 d1
  have c2: "getCourtRule_run irlj_db ''IRLJ'' ''6'' =
      (stmt_get irlj_db ''IRLJ'' ''6.0'', [(''IRLJ'', ''6''), (''IRLJ'', ''6.0'')])"
    by simp
  from getCourtRule_fallback [of "''IRLJ''" "''6.3''" irlj_db] g4 d2
  have c3: "getCourtRule_run irlj_db ''IRLJ'' ''6.3'' = (None, [(''IRLJ'', ''6.3'')])"
    by simp
  from getCourtRule_fallback [of "''IRLJ''" "''7''" irlj_db] g5 g6 d3
  have c4: "getCourtRule irlj_db ''IRLJ'' ''7'' = None"
    by simp
  show ?thesis
    using g2 g4 g5 g6 d1 d2 c3 c4
    by (simp add: getCourtRule_def c1 c2 g1 g3 select_rule_def)
qed

section \<open>Properties of the browsing order\<close>

lemma sorted_fst_of_pairs:
  "sorted (map (\<lambda>x. (f x, g x)) xs) \<Longrightarrow> sorted (map f xs)"
  for f :: "'a \<Rightarrow> 'b::linorder" and g :: "'a \<Rightarrow> 'c::linorder"
proof -
  assume "sorted (map (\<lambda>x. (f x, g x)) xs)"
  then have "sorted_wrt (\<lambda>a b. (f a, g a) \<le> (f b, g b)) xs"
    by (simp add: sorted_wrt_map)
  then have "sorted_wrt (\<lambda>a b. f a \<le> f b) xs"
    by (rule sorted_wrt_mono_rel [rotated]) (auto simp add: less_eq_prod_def)
  then show ?thesis by (simp add: sorted_wrt_map)
qed

text \<open>Titles, and the rules of a rule set, come in ascending order of the integers their
  numbers are cast to.\<close>

lemma listRCWTitles_numeric:
  "sorted (map (\<lambda>g. cast_integer (fst g)) (listRCWTitles rcw))"
  unfolding listRCWTitles_def
  by (rule sorted_fst_of_pairs [where g = fst]) (rule sorted_sort_key)

lemma listCourtRules_numeric:
  "rs \<noteq> [] \<Longrightarrow>
   sorted (map (\<lambda>x. (rule_major (fst (snd x)), rule_minor (fst (snd x))))
             (listCourtRules db (Some rs)))"
proof -
  assume "rs \<noteq> []"
  then have "map (\<lambda>x. (rule_major (fst (snd x)), rule_minor (fst (snd x))))
        (listCourtRules db (Some rs)) =
      map (\<lambda>r. (rule_major (cr_rule_number r), rule_minor (cr_rule_number r)))
        (sort_key (\<lambda>r. (rule_major (cr_rule_number r), rule_minor (cr_rule_number r)))
           (filter (\<lambda>r. cr_rule_set r = rs) (court_rules db)))"
    by (simp add: listCourtRules_def comp_def)
  then show ?thesis by (simp only: sorted_sort_key)
qed

lemma listRCWTitles_example:
  "map fst (listRCWTitles [section_row 1 ''46.61.502'' ''46'' ''46.61'',
                          section_row 2 ''9.41.010'' ''9'' ''9.41'']) = [''9'', ''46'']"
  by code_simp

text \<open>
  C4. Every hierarchical enumeration (titles, the chapters of a title, the sections of a
  chapter, the rules of a rule set) returns its children in ascending numeric order of the
  integer segments, not in the order of the strings; chapter 9 comes before chapter 46.
  The chapters and the sections are ordered as text: in title 9 chapter 9.100 is listed
  before chapter 9.41; chapter numbers 9 and 46 under one title are listed 46 first; in
  chapter 46.61 section 46.61.5055 is listed before section 46.61.506.
\<close>

theorem chapters_and_sections_in_text_order:
  "map fst (listRCWChapters [section_row 1 ''9.41.010'' ''9'' ''9.41'',
                            section_row 2 ''9.100.010'' ''9'' ''9.100'',
                            section_row 3 ''9.41.040'' ''9'' ''9.41''] ''9'')
     = [''9.100'', ''9.41'']
   \<and> \<not> numeric_ascending [''9.100'', ''9.41'']
   \<and> map fst (listRCWChapters [section_row 1 ''9.010'' ''1'' ''9'',
                              section_row 2 ''46.010'' ''1'' ''46''] ''1'')
     = [''46'', ''9'']
   \<and> \<not> numeric_ascending [''46'', ''9'']
   \<and> map fst (listRCWSections [section_row 1 ''46.61.506'' ''46'' ''46.61'',
                              section_row 2 ''46.61.5055'' ''46'' ''46.61''] ''46.61'')
     = [''46.61.5055'', ''46.61.506'']
   \<and> \<not> numeric_ascending [''46.61.5055'', ''46.61.506'']"
  by code_simp

section \<open>Properties of the discovery\<close>

lemma keep_first_seen_cong:
  "set seen = set seen' \<Longrightarrow> keep_first key seen xs = keep_first key seen' xs"
proof (induction xs arbitrary: seen seen')
  case Nil
  show ?case by simp
next
  case (Cons x xs)
  have "set (key x # seen) = set (key x # seen')" using Cons.prems by simp
  from Cons.IH [OF this] Cons.IH [OF Cons.prems] Cons.prems show ?case by simp
qed

lemma foldl_push_unless_found:
  "foldl push_unless_found acc links =
     acc @ keep_first ruleNumber (map ruleNumber acc) links"
proof (induction links arbitrary: acc)
  case Nil
  show ?case by simp
next
  case (Cons x xs)
  show ?case
  proof (cases "ruleNumber x \<in> set (map ruleNumber acc)")
    case True
    then have "push_unless_found acc x = acc"
      by (auto simp add: push_unless_found_def find_None_iff)
    with True Cons.IH [of acc] show ?thesis by simp
  next
    case False
    then have step: "push_unless_found acc x = acc @ [x]"
      by (force simp add: push_unless_found_def find_None_iff image_iff)
    have "keep_first ruleNumber (map ruleNumber (acc @ [x])) xs =
        keep_first ruleNumber (ruleNumber x # map ruleNumber acc) xs"
      by (rule keep_first_seen_cong) auto
    with False step Cons.IH [of "acc @ [x]"] show ?thesis by simp
  qed
qed

text \<open>The guarded push of the PDF scrapers keeps the first link of each rule number.\<close>

lemma find_dedup_keeps_first: "find_dedup links = keep_first ruleNumber [] links"
  by (simp add: find_dedup_def foldl_push_unless_found)

text \<open>
  C6. When several anchors of a listing page normalize to one identifier, the first
  encountered is kept and the others are discarded, on every listing page and for every
  rule set. \<^verbatim>\<open>CourtRulesScraper\<close> keeps the last one: of two anchors for IRLJ 1.1 its
  \<^verbatim>\<open>Map\<close> keeps the name and link of the second, in the place of the first, where the
  worded rule and the guarded push of the other scrapers keep the first.
\<close>

theorem uniqueRules_keeps_last:
  "uniqueRules [anchor ''1.1'' ''Scope'' ''a'', anchor ''1.2'' ''Effect'' ''b'',
                anchor ''1.1'' ''Purpose'' ''c'']
     = [anchor ''1.1'' ''Purpose'' ''c'', anchor ''1.2'' ''Effect'' ''b'']
   \<and> keep_first (\<lambda>r. ruleSet r @ ''-'' @ ruleNumber r) []
        [anchor ''1.1'' ''Scope'' ''a'', anchor ''1.2'' ''Effect'' ''b'',
         anchor ''1.1'' ''Purpose'' ''c'']
     = [anchor ''1.1'' ''Scope'' ''a'', anchor ''1.2'' ''Effect'' ''b'']
   \<and> find_dedup [anchor ''1.1'' ''Scope'' ''a'', anchor ''1.2'' ''Effect'' ''b'',
                 anchor ''1.1'' ''Purpose'' ''c'']
     = [anchor ''1.1'' ''Scope'' ''a'', anchor ''1.2'' ''Effect'' ''b'']"
  by (simp add: uniqueRules_def new_Map_def find_dedup_def push_unless_found_def anchor_def)

section \<open>Properties of the rule numbers\<close>






text \<open>In RPC a third field of value 0 that is not written \<^verbatim>\<open>00\<close> gets a suffix, the
  character before \<open>a\<close>.\<close>

lemma rpc_ruleNumber_zero_sub:
  "rpc_ruleNumber ''01'' ''07'' ''00'' = ''1.7''
   \<and> rpc_ruleNumber ''01'' ''07'' ''0'' = ''1.7'' @ [CHR 0x60]"
  by code_simp

section \<open>Properties of the body start\<close>

text \<open>\<^verbatim>\<open>RALJScraper\<close> and \<^verbatim>\<open>RPCScraper\<close> drop a prefix only for a match at an index from 1
  to 99, and then exactly that prefix.\<close>

lemma ralj_body_start_bounded:
  "ralj_body_start number fullText \<noteq> fullText \<Longrightarrow>
     (\<exists>k. 0 < k \<and> k < 100
          \<and> search fullText (map Lit ''RALJ'' @ [Spaces] @ escape_all number) = int k
          \<and> ralj_body_start number fullText = drop k fullText)"
  unfolding ralj_body_start_def Let_def
  by (auto split: if_splits
      intro!: exI [of _ "nat (search fullText (map Lit ''RALJ'' @ [Spaces] @ escape_all number))"])

lemma rpc_body_start_bounded:
  "rpc_body_start number fullText \<noteq> fullText \<Longrightarrow>
     (\<exists>k. 0 < k \<and> k < 100
          \<and> search fullText (map Lit ''RPC'' @ [Spaces] @ escape_first number) = int k
          \<and> rpc_body_start number fullText = drop k fullText)"
  unfolding rpc_body_start_def Let_def
  by (auto split: if_splits
      intro!: exI [of _ "nat (search fullText (map Lit ''RPC'' @ [Spaces] @ escape_first number))"])

text \<open>\<^verbatim>\<open>CourtRulesPDFScraperV2\<close> drops the prefix for a match at any index from 1 on.\<close>

lemma v2_body_start_unbounded:
  "0 < search fullText (unescaped tag @ [Spaces] @ unescaped number) \<Longrightarrow>
   v2_body_start tag number fullText =
     drop (nat (search fullText (unescaped tag @ [Spaces] @ unescaped number))) fullText"
  by (simp add: v2_body_start_def Let_def)

lemma crlj_text_search:
  "search crlj_text (unescaped ''CRLJ'' @ [Spaces] @ unescaped ''1.1'') = 116"
  by code_simp

lemma ralj_text_search:
  "search ralj_text (map Lit ''RALJ'' @ [Spaces] @ escape_all ''1.1'') = 116"
  by code_simp

text \<open>
  C8. On every text extracted from a PDF, what precedes the match of the rule set and
  number is discarded only when the match lies beyond position 0 and within a bounded
  offset from the top; a match later in the document never truncates the text.
  \<^verbatim>\<open>CourtRulesPDFScraperV2\<close> has no such bound: on a text whose first mention of CRLJ 1.1 is
  at index 116 it drops the 116 characters before it, where \<^verbatim>\<open>RALJScraper\<close> leaves the
  like text of a RALJ rule as it is.
\<close>

theorem v2_body_start_truncates_at_late_match:
  "search crlj_text (unescaped ''CRLJ'' @ [Spaces] @ unescaped ''1.1'') = 116
   \<and> v2_body_start ''CRLJ'' ''1.1'' crlj_text = ''CRLJ 1.1 and CRLJ 81.''
   \<and> search ralj_text (map Lit ''RALJ'' @ [Spaces] @ escape_all ''1.1'') = 116
   \<and> ralj_body_start ''1.1'' ralj_text = ralj_text"
proof -
  have d: "drop 116 crlj_text = ''CRLJ 1.1 and CRLJ 81.''"
    by (simp add: crlj_text_def)
  show ?thesis
    unfolding v2_body_start_def ralj_body_start_def crlj_text_search ralj_text_search Let_def
    using d by simp
qed

section \<open>Properties of the tool-call handler\<close>

text \<open>
  C9. Every operation of the query surface, on every input, unknown tool names and lookup
  misses included, returns a found record, a not-found indication or an error string, and
  throws nothing past the handler: the handler returns a response whatever the database
  methods return or throw; an unknown tool name gives the error text of the \<^verbatim>\<open>default\<close>
  branch, a lookup miss a not-found text, a throw of a database method its message.
\<close>

theorem CallTool_never_throws:
  "(\<exists>response. CallTool db name args = Inr response)
   \<and> (name \<notin> set tool_names \<longrightarrow>
        CallTool db name args = Inr (ErrorText (''Error: Unknown tool: '' @ name)))
   \<and> (db_getRCW db (arg args ''citation'') = Inr None \<longrightarrow>
        CallTool db ''get_rcw'' args =
          Inr (NotFound (''RCW '' @ template (arg args ''citation'')
                         @ '' not found in database.'')))
   \<and> (db_getCourtRule db (arg args ''ruleSet'') (arg args ''ruleNumber'') = Inr None \<longrightarrow>
        CallTool db ''get_court_rule'' args =
          Inr (NotFound (template (arg args ''ruleSet'') @ '' ''
                         @ template (arg args ''ruleNumber'') @ '' not found in database.'')))
   \<and> (db_getRCW db (arg args ''citation'') = Inl e \<longrightarrow>
        CallTool db ''get_rcw'' args = Inr (ErrorText (''Error: '' @ message e)))"
proof (intro conjI impI)
  show "\<exists>response. CallTool db name args = Inr response"
    by (cases "tool_switch db name args") (simp_all add: CallTool_def)
next
  assume "name \<notin> set tool_names"
  then have "tool_switch db name args = Inl (Error (''Unknown tool: '' @ name))"
    by (simp add: tool_switch_def tool_names_def)
  then show "CallTool db name args = Inr (ErrorText (''Error: Unknown tool: '' @ name))"
    by (simp add: CallTool_def message_def)
next
  assume "db_getRCW db (arg args ''citation'') = Inr None"
  then show "CallTool db ''get_rcw'' args =
      Inr (NotFound (''RCW '' @ template (arg args ''citation'') @ '' not found in database.''))"
    by (simp add: CallTool_def tool_switch_def)
next
  assume "db_getCourtRule db (arg args ''ruleSet'') (arg args ''ruleNumber'') = Inr None"
  then show "CallTool db ''get_court_rule'' args =
      Inr (NotFound (template (arg args ''ruleSet'') @ '' ''
                     @ template (arg args ''ruleNumber'') @ '' not found in database.''))"
    by (simp add: CallTool_def tool_switch_def)
next
  assume "db_getRCW db (arg args ''citation'') = Inl e"
  then show "CallTool db ''get_rcw'' args = Inr (ErrorText (''Error: '' @ message e))"
    by (simp add: CallTool_def tool_switch_def)
qed

theorem CallTool_never_throws_witness:
  "''delete_rcw'' \<notin> set tool_names
   \<and> CallTool one_section_db ''delete_rcw'' Map.empty =
       Inr (ErrorText ''Error: Unknown tool: delete_rcw'')
   \<and> db_getRCW one_section_db (arg [''citation'' \<mapsto> JStr ''1.1''] ''citation'') = Inr None
   \<and> CallTool one_section_db ''get_rcw'' [''citation'' \<mapsto> JStr ''1.1''] =
       Inr (NotFound ''RCW 1.1 not found in database.'')
   \<and> db_getCourtRule one_section_db
        (arg [''ruleSet'' \<mapsto> JStr ''IRLJ'', ''ruleNumber'' \<mapsto> JStr ''6''] ''ruleSet'')
        (arg [''ruleSet'' \<mapsto> JStr ''IRLJ'', ''ruleNumber'' \<mapsto> JStr ''6''] ''ruleNumber'')
       = Inr None
   \<and> CallTool one_section_db ''get_court_rule''
        [''ruleSet'' \<mapsto> JStr ''IRLJ'', ''ruleNumber'' \<mapsto> JStr ''6''] =
       Inr (NotFound ''IRLJ 6 not found in database.'')
   \<and> db_getRCW one_section_db (arg Map.empty ''citation'') =
       Inl (Error ''cannot bind undefined'')
   \<and> CallTool one_section_db ''get_rcw'' Map.empty =
       Inr (ErrorText ''Error: cannot bind undefined'')"
proof -
  have h1: "''delete_rcw'' \<notin> set tool_names"
    by (simp add: tool_names_def)
  have h2: "db_getRCW one_section_db (arg [''citation'' \<mapsto> JStr ''1.1''] ''citation'') = Inr None"
    by (simp add: one_section_db_def arg_def)
  have h3: "db_getCourtRule one_section_db
        (arg [''ruleSet'' \<mapsto> JStr ''IRLJ'', ''ruleNumber'' \<mapsto> JStr ''6''] ''ruleSet'')
        (arg [''ruleSet'' \<mapsto> JStr ''IRLJ'', ''ruleNumber'' \<mapsto> JStr ''6''] ''ruleNumber'')
       = Inr None"
    by (simp add: one_section_db_def)
  have h4: "db_getRCW one_section_db (arg Map.empty ''citation'') =
      Inl (Error ''cannot bind undefined'')"
    by (simp add: one_section_db_def arg_def)
  have t1: "template (arg [''citation'' \<mapsto> JStr ''1.1''] ''citation'') = ''1.1''"
    and t2: "template (arg [''ruleSet'' \<mapsto> JStr ''IRLJ'', ''ruleNumber'' \<mapsto> JStr ''6'']
                 ''ruleSet'') = ''IRLJ''"
    and t3: "template (arg [''ruleSet'' \<mapsto> JStr ''IRLJ'', ''ruleNumber'' \<mapsto> JStr ''6'']
                 ''ruleNumber'') = ''6''"
    by (simp_all add: template_def arg_def)
  from CallTool_never_throws [of one_section_db "''delete_rcw''" Map.empty] h1
  have c1: "CallTool one_section_db ''delete_rcw'' Map.empty =
      Inr (ErrorText ''Error: Unknown tool: delete_rcw'')"
    by simp
  from CallTool_never_throws [of one_section_db _ "[''citation'' \<mapsto> JStr ''1.1'']"] h2 t1
  have c2: "CallTool one_section_db ''get_rcw'' [''citation'' \<mapsto> JStr ''1.1''] =
      Inr (NotFound ''RCW 1.1 not found in database.'')"
    by simp
  from CallTool_never_throws
    [of one_section_db _ "[''ruleSet'' \<mapsto> JStr ''IRLJ'', ''ruleNumber'' \<mapsto> JStr ''6'']"]
    h3 t2 t3
  have c3: "CallTool one_section_db ''get_court_rule''
        [''ruleSet'' \<mapsto> JStr ''IRLJ'', ''ruleNumber'' \<mapsto> JStr ''6''] =
      Inr (NotFound ''IRLJ 6 not found in database.'')"
    by simp
  from CallTool_never_throws [of one_section_db _ Map.empty "Error ''cannot bind undefined''"] h4
  have c4: "CallTool one_section_db ''get_rcw'' Map.empty =
      Inr (ErrorText ''Error: cannot bind undefined'')"
    by (simp add: message_def)
  from h1 h2 h3 h4 c1 c2 c3 c4 show ?thesis by blast
qed

end
